theory Spec2Isabelle
  imports Complex_Main
begin

section \<open>Numbers, clock and randomness\<close>

text \<open>
  The TypeScript sources compute with JavaScript numbers. They are embedded here as
  mathematical reals: every arithmetic operation is exact and there is no NaN and no
  infinity. Timestamps (\<open>Date.now()\<close>, the value of a \<open>Date\<close>) are integers, counting
  milliseconds. One synchronous call reads the clock once: the argument \<open>now\<close>.
  \<open>Math.random()\<close> is a source of values that the environment supplies; it is the
  component \<open>random\<close> of the world, the sequence of values the next calls will return.
\<close>

definition Math_round :: "real \<Rightarrow> real" where
  \<comment> \<open>\<open>Math.round\<close>: the nearest integer, a half rounding towards plus infinity\<close>
  "Math_round x = of_int \<lfloor>x + 1 / 2\<rfloor>"

definition TimeClip :: "real \<Rightarrow> int" where
  \<comment> \<open>\<open>new Date(t)\<close> keeps the integral part of \<open>t\<close>, truncating towards zero\<close>
  "TimeClip t = (if 0 \<le> t then \<lfloor>t\<rfloor> else \<lceil>t\<rceil>)"

section \<open>The data model\<close>

datatype json = JNull | JBool bool | JNum real | JStr string
  | JArr "json list" | JObj "(string \<times> json) list"

record StoredReading =
  plantId :: json
  temperature :: json
  humidity :: json
  soilMoisture :: json
  lightIntensity :: json
  acousticData :: json
  timestamp :: int

datatype ResponseBody =
    ErrorBody string
  | IngestBody bool string StoredReading

record Response =
  status :: nat
  body :: ResponseBody

record PlantHealthInput =
  healthScore :: real
  temperature :: real
  humidity :: real

datatype Trend = improving | stable | declining

record PredictionResult =
  predictedHealth :: real
  confidence :: real
  trend :: Trend

datatype Classification = healthy | moderate_stress | high_stress

record AcousticResult =
  stressLevel :: real
  classification :: Classification
  confidence :: real

record SensorReading =
  plantId :: int
  temperature :: real
  humidity :: real
  soilMoisture :: real
  lightIntensity :: real
  timestamp :: int
  acousticData :: "real list"

record PlantState =
  plantId :: int
  temperature :: real
  humidity :: real
  soilMoisture :: real
  lightIntensity :: real
  lastWatered :: int
  stressLevel :: real

text \<open>
  \<open>plantStates\<close> is the module-level \<open>Map<number, PlantState>\<close> of
  \<open>lib/iotSimulator.ts\<close>; it starts empty.
\<close>

record world =
  plantStates :: "int \<rightharpoonup> PlantState"
  random :: "nat \<Rightarrow> real"

definition Math_random :: "world \<Rightarrow> real \<times> world" where
  "Math_random w = (random w 0, w\<lparr>random := (\<lambda>n. random w (Suc n))\<rparr>)"

section \<open>The simulator: \<open>lib/iotSimulator.ts\<close>\<close>

definition initializeSensorState :: "int \<Rightarrow> real \<Rightarrow> int \<Rightarrow> world \<Rightarrow> world" where
  "initializeSensorState pid optimalTemp now w0 =
     (let (r1, w1) = Math_random w0;
          (r2, w2) = Math_random w1;
          (r3, w3) = Math_random w2;
          (r4, w4) = Math_random w3;
          (r5, w5) = Math_random w4;
          (r6, w6) = Math_random w5
      in w6\<lparr>plantStates := (plantStates w6)(pid \<mapsto>
           \<lparr>plantId = pid,
            temperature = optimalTemp + (r1 - 0.5) * 4,
            humidity = 60 + (r2 - 0.5) * 20,
            soilMoisture = 60 + (r3 - 0.5) * 30,
            lightIntensity = 500 + (r4 - 0.5) * 200,
            lastWatered = TimeClip (of_int now - r5 * 7 * 24 * 60 * 60 * 1000),
            stressLevel = r6 * 0.3\<rparr>)\<rparr>)"

definition healthyBase :: "real list" where
  "healthyBase = [100, 150, 200, 250]"

definition stressFreqs :: "real list" where
  "stressFreqs = [800, 1200, 1600, 2000]"

text \<open>
  The loop of \<open>generateAcousticPattern\<close>: \<open>k\<close> counts the iterations that remain and
  \<open>i\<close> is the loop variable, so the loop from 0 to \<open>numFreqs\<close> is \<open>pattern_loop 20 0\<close>.
\<close>

fun pattern_loop :: "nat \<Rightarrow> nat \<Rightarrow> real \<Rightarrow> world \<Rightarrow> real list \<times> world" where
  "pattern_loop 0 i s w = ([], w)"
| "pattern_loop (Suc k) i s w =
     (let frequency = healthyBase ! (i mod 4) * (1 - s) + stressFreqs ! (i mod 4) * s;
          (r, w1) = Math_random w;
          (fs, w2) = pattern_loop k (Suc i) s w1
      in ((frequency + (r - 0.5) * 50 * s) # fs, w2))"

definition generateAcousticPattern :: "real \<Rightarrow> world \<Rightarrow> real list \<times> world" where
  "generateAcousticPattern s w = pattern_loop 20 0 s w"

definition generateSensorReading :: "int \<Rightarrow> int \<Rightarrow> world \<Rightarrow> SensorReading \<times> world" where
  "generateSensorReading pid now w0 =
     (let wi = (if plantStates w0 pid = None then initializeSensorState pid 22 now w0 else w0);
          state = the (plantStates wi pid);
          (r1, w1) = Math_random wi;
          (r2, w2) = Math_random w1;
          (r3, w3) = Math_random w2;
          (r4, w4) = Math_random w3;
          tempChange = (r1 - 0.5) * 0.5;
          humidityChange = (r2 - 0.5) * 2;
          moistureChange = (r3 - 0.5) * 3;
          lightChange = (r4 - 0.5) * 50;
          t = max 15 (min 35 (temperature state + tempChange));
          h = max 20 (min 95 (humidity state + humidityChange));
          m1 = max 10 (min 100 (soilMoisture state + moistureChange));
          l = max 0 (min 1000 (lightIntensity state + lightChange));
          hoursSinceWatered = (of_int now - of_int (lastWatered state)) / (1000 * 60 * 60);
          m = max 10 (m1 - hoursSinceWatered * 0.15);
          tempStress = \<bar>t - 22\<bar> / 10;
          humidityStress = \<bar>h - 60\<bar> / 30;
          moistureStress = \<bar>m - 60\<bar> / 50;
          s = min 1 ((tempStress + humidityStress + moistureStress) / 3);
          state' = state\<lparr>temperature := t, humidity := h, soilMoisture := m,
                         lightIntensity := l, stressLevel := s\<rparr>;
          (acoustic, w5) = generateAcousticPattern s w4
      in (\<lparr>SensorReading.plantId = pid,
           SensorReading.temperature = Math_round (t * 10) / 10,
           SensorReading.humidity = Math_round (h * 10) / 10,
           SensorReading.soilMoisture = Math_round (m * 10) / 10,
           SensorReading.lightIntensity = Math_round l,
           SensorReading.timestamp = now,
           SensorReading.acousticData = acoustic\<rparr>,
          w5\<lparr>plantStates := (plantStates w5)(pid \<mapsto> state')\<rparr>))"

definition waterPlant :: "int \<Rightarrow> int \<Rightarrow> world \<Rightarrow> world" where
  "waterPlant pid now w =
     (case plantStates w pid of
        None \<Rightarrow> w
      | Some state \<Rightarrow>
          w\<lparr>plantStates := (plantStates w)(pid \<mapsto>
               state\<lparr>soilMoisture := min 90 (soilMoisture state + 40), lastWatered := now\<rparr>)\<rparr>)"

definition getPlantState :: "int \<Rightarrow> world \<Rightarrow> PlantState option" where
  "getPlantState pid w = plantStates w pid"

section \<open>The prediction engine: \<open>lib/tfModels.ts\<close>\<close>

text \<open>
  A loaded TensorFlow model is an opaque function of the environment. What one run of the
  model path does is one of: an exception before the results are assigned (raised by
  \<open>tensor2d\<close>, \<open>predict\<close> or \<open>dataSync\<close>); two output values, where the second is
  absent when the model has a single output; or the two values followed by an exception
  from one of the \<open>dispose\<close> calls, after both assignments. \<open>healthModel\<close> and
  \<open>acousticModel\<close> are \<open>None\<close> when no model is loaded (or \<open>window.tf\<close> is absent).
\<close>

datatype inference = Throws | Output real "real option" | OutputThenThrows real "real option"

type_synonym tf_model = "real list \<Rightarrow> inference"

datatype js_error = Thrown

definition js_or :: "real option \<Rightarrow> real \<Rightarrow> real" where
  \<comment> \<open>\<open>v || d\<close> on a number that may be undefined: zero is falsy\<close>
  "js_or v d = (case v of None \<Rightarrow> d | Some x \<Rightarrow> if x = 0 then d else x)"

text \<open>
  \<open>health_estimate\<close> is the first half of \<open>predictPlantHealth\<close>: the values of the
  local variables \<open>predictedHealth\<close> and \<open>confidence\<close> when the trend is determined.
  The inner \<open>catch\<close> only logs, so a failed inference leaves the initial values.
\<close>

definition health_estimate :: "tf_model option \<Rightarrow> PlantHealthInput \<Rightarrow> real \<times> real" where
  "health_estimate healthModel input =
     (case healthModel of
        Some model \<Rightarrow>
          (case model [healthScore input / 100,
                       PlantHealthInput.temperature input / 30,
                       PlantHealthInput.humidity input / 100] of
             Throws \<Rightarrow> (healthScore input, 0.7)
           | Output v0 v1 \<Rightarrow> (Math_round (v0 * 100), js_or v1 0.75)
           | OutputThenThrows v0 v1 \<Rightarrow> (Math_round (v0 * 100), js_or v1 0.75))
      | None \<Rightarrow>
          (let tempScore = 100 - \<bar>PlantHealthInput.temperature input - 23\<bar> * 5;
               humidityScore = 100 - \<bar>PlantHealthInput.humidity input - 60\<bar> * 1.5
           in (Math_round (healthScore input * 0.5 + tempScore * 0.25 + humidityScore * 0.25),
               0.65)))"

text \<open>
  The body of the outer \<open>try\<close>. No statement of it outside the inner \<open>try\<close> can raise,
  so it always ends in its \<open>return\<close>.
\<close>

definition predictPlantHealth_try ::
  "tf_model option \<Rightarrow> PlantHealthInput \<Rightarrow> js_error + PredictionResult" where
  "predictPlantHealth_try healthModel input =
     (let (predicted, conf) = health_estimate healthModel input;
          tr = (if predicted > healthScore input + 5 then improving
                else if predicted < healthScore input - 5 then declining
                else stable)
      in Inr \<lparr>predictedHealth = max 0 (min 100 predicted),
               PredictionResult.confidence = Math_round (conf * 100) / 100,
               trend = tr\<rparr>)"

definition predictPlantHealth :: "tf_model option \<Rightarrow> PlantHealthInput \<Rightarrow> PredictionResult" where
  "predictPlantHealth healthModel input =
     (case predictPlantHealth_try healthModel input of
        Inr result \<Rightarrow> result
      | Inl error \<Rightarrow>
          \<lparr>predictedHealth = healthScore input,
           PredictionResult.confidence = 0.5,
           trend = stable\<rparr>)"

text \<open>
  The fallback branch of \<open>analyzeAcousticPattern\<close> divides by \<open>mean + 0.001\<close>. For a
  mean of exactly \<open>-0.001\<close> the code divides by zero (and gets an infinity or NaN), which
  the model does not follow: HOL's quotient is 0 there. No statement below is about such
  a vector.
\<close>

definition stress_estimate :: "tf_model option \<Rightarrow> real list \<Rightarrow> real \<Rightarrow> real \<times> real" where
  "stress_estimate acousticModel audioFeatures plantHealthScore =
     (case acousticModel of
        Some model \<Rightarrow>
          (case model audioFeatures of
             Throws \<Rightarrow> (0.5, 0.65)
           | Output v0 v1 \<Rightarrow> (min 1 (max 0 v0), js_or v1 0.65)
           | OutputThenThrows v0 v1 \<Rightarrow> (min 1 (max 0 v0), js_or v1 0.65))
      | None \<Rightarrow>
          (let mean = foldl (+) (hd audioFeatures) (tl audioFeatures)
                        / of_nat (length audioFeatures);
               variance = foldl (\<lambda>sum val. sum + (val - mean) ^ 2) 0 audioFeatures
                            / of_nat (length audioFeatures);
               s0 = min 1 (sqrt variance / (mean + 0.001));
               healthFactor = 1 - plantHealthScore / 100;
               s = s0 * 0.7 + healthFactor * 0.3
           in (s, 0.6 + 0.2 * (1 - \<bar>s - 0.5\<bar>))))"

text \<open>\<open>audioFeatures\<close> is \<open>None\<close> when the caller passes no array (a falsy value).\<close>

definition analyzeAcousticPattern_try ::
  "tf_model option \<Rightarrow> real list option \<Rightarrow> real \<Rightarrow> js_error + AcousticResult" where
  "analyzeAcousticPattern_try acousticModel audioFeatures plantHealthScore =
     (if audioFeatures = None \<or> audioFeatures = Some []
      then Inr \<lparr>AcousticResult.stressLevel = 0.5, classification = healthy,
                AcousticResult.confidence = 0.5\<rparr>
      else
        (let (s, conf) = stress_estimate acousticModel (the audioFeatures) plantHealthScore;
             cls = (if s > 0.7 then high_stress
                    else if s > 0.4 then moderate_stress
                    else healthy)
         in Inr \<lparr>AcousticResult.stressLevel = Math_round (s * 1000) / 1000,
                  classification = cls,
                  AcousticResult.confidence = Math_round (conf * 100) / 100\<rparr>))"

definition analyzeAcousticPattern ::
  "tf_model option \<Rightarrow> real list option \<Rightarrow> real \<Rightarrow> AcousticResult" where
  "analyzeAcousticPattern acousticModel audioFeatures plantHealthScore =
     (case analyzeAcousticPattern_try acousticModel audioFeatures plantHealthScore of
        Inr result \<Rightarrow> result
      | Inl error \<Rightarrow> \<lparr>AcousticResult.stressLevel = 0.5, classification = healthy,
                AcousticResult.confidence = 0.5\<rparr>)"

section \<open>The ingestion endpoint: \<open>app/api/sensors/ingest/route.ts\<close>\<close>

text \<open>
  A request body is a JSON value when \<open>request.json()\<close> can parse it. Reading a property
  gives \<open>None\<close> for JavaScript's \<open>undefined\<close>; in an object with a repeated key the last
  binding counts, as in \<open>JSON.parse\<close>.
\<close>

fun truthy :: "json \<Rightarrow> bool" where
  "truthy JNull = False"
| "truthy (JBool b) = b"
| "truthy (JNum x) = (x \<noteq> 0)"
| "truthy (JStr s) = (s \<noteq> [])"
| "truthy (JArr xs) = True"
| "truthy (JObj kvs) = True"

fun property :: "json \<Rightarrow> string \<Rightarrow> json option" where
  "property (JObj kvs) k = map_of (rev kvs) k"
| "property other k = None"

definition nullish :: "json option \<Rightarrow> json" where
  \<comment> \<open>\<open>v ?? null\<close>\<close>
  "nullish v = (case v of None \<Rightarrow> JNull | Some x \<Rightarrow> x)"

text \<open>
  \<open>POST\<close> takes the parsed body (\<open>None\<close> when \<open>request.json()\<close> rejects), the clock and
  the module-level map \<open>sensorReadings\<close>. The stored timestamp is the clock value that
  \<open>toISOString\<close> renders. Destructuring \<open>null\<close> raises, which the \<open>catch\<close> turns into a
  500.
\<close>

definition POST ::
  "json option \<Rightarrow> int \<Rightarrow> (json \<rightharpoonup> StoredReading list)
     \<Rightarrow> Response \<times> (json \<rightharpoonup> StoredReading list)" where
  "POST parsed now sensorReadings =
     (case parsed of
        None \<Rightarrow> (\<lparr>status = 500, body = ErrorBody ''Failed to ingest sensor data''\<rparr>,
                  sensorReadings)
      | Some JNull \<Rightarrow> (\<lparr>status = 500, body = ErrorBody ''Failed to ingest sensor data''\<rparr>,
                       sensorReadings)
      | Some b \<Rightarrow>
          (let pid = property b ''plantId'';
               temp = property b ''temperature'';
               hum = property b ''humidity''
           in if (case pid of None \<Rightarrow> True | Some v \<Rightarrow> \<not> truthy v) \<or> temp = None \<or> hum = None
              then (\<lparr>status = 400,
                     body = ErrorBody ''Missing required fields: plantId, temperature, humidity''\<rparr>,
                    sensorReadings)
              else
                (let reading = \<lparr>StoredReading.plantId = the pid,
                                StoredReading.temperature = the temp,
                                StoredReading.humidity = the hum,
                                StoredReading.soilMoisture = nullish (property b ''soilMoisture''),
                                StoredReading.lightIntensity = nullish (property b ''lightIntensity''),
                                StoredReading.acousticData = nullish (property b ''acousticData''),
                                StoredReading.timestamp = now\<rparr>;
                     readings = (case sensorReadings (the pid) of None \<Rightarrow> [] | Some rs \<Rightarrow> rs)
                                  @ [reading];
                     kept = (if length readings > 1000 then tl readings else readings)
                 in (\<lparr>status = 201,
                      body = IngestBody True ''Sensor data ingested successfully'' reading\<rparr>,
                     sensorReadings(the pid \<mapsto> kept)))))"

section \<open>Notions used in the statements\<close>

text \<open>
  \<open>Math.random()\<close> returns values in the interval from 0 (included) to 1 (excluded).
\<close>

definition rng_ok :: "world \<Rightarrow> bool" where
  "rng_ok w = (\<forall>n. 0 \<le> random w n \<and> random w n < 1)"





text \<open>
  Two parts of \<open>generateSensorReading\<close>, named for the proofs: the world after the lazy
  initialisation, and the state update as a function of the four draws.
\<close>

definition getOrInit :: "int \<Rightarrow> int \<Rightarrow> world \<Rightarrow> world" where
  "getOrInit pid now w =
     (if plantStates w pid = None then initializeSensorState pid 22 now w else w)"

definition next_state ::
  "real \<Rightarrow> real \<Rightarrow> real \<Rightarrow> real \<Rightarrow> int \<Rightarrow> PlantState \<Rightarrow> PlantState" where
  "next_state r1 r2 r3 r4 now state =
     (let t = max 15 (min 35 (temperature state + (r1 - 0.5) * 0.5));
          h = max 20 (min 95 (humidity state + (r2 - 0.5) * 2));
          m1 = max 10 (min 100 (soilMoisture state + (r3 - 0.5) * 3));
          l = max 0 (min 1000 (lightIntensity state + (r4 - 0.5) * 50));
          m = max 10 (m1 - (of_int now - of_int (lastWatered state)) / (1000 * 60 * 60) * 0.15);
          s = min 1 ((\<bar>t - 22\<bar> / 10 + \<bar>h - 60\<bar> / 30 + \<bar>m - 60\<bar> / 50) / 3)
      in state\<lparr>temperature := t, humidity := h, soilMoisture := m,
                lightIntensity := l, stressLevel := s\<rparr>)"

text \<open>Concrete inputs for the examples.\<close>

definition constant_rng :: "real \<Rightarrow> nat \<Rightarrow> real" where
  "constant_rng c n = c"

definition empty_world :: "(nat \<Rightarrow> real) \<Rightarrow> world" where
  "empty_world rnd = \<lparr>plantStates = Map.empty, random = rnd\<rparr>"

text \<open>
  From the empty store, with every draw equal to 0.9: a first reading of plant 1, the plant
  watered in the same millisecond, and a second reading one second later.
\<close>

definition moist_world :: world where
  "moist_world =
     snd (generateSensorReading 1 1000001000
       (waterPlant 1 1000000000
         (snd (generateSensorReading 1 1000000000 (empty_world (constant_rng (9 / 10)))))))"

definition precise_state :: PlantState where
  "precise_state =
     \<lparr>plantId = 1, temperature = 20123 / 1000, humidity = 60, soilMoisture = 60,
      lightIntensity = 500, lastWatered = 0, stressLevel = 0\<rparr>"

definition precise_world :: world where
  "precise_world = \<lparr>plantStates = [1 \<mapsto> precise_state], random = constant_rng (1 / 2)\<rparr>"

definition failing_model :: tf_model where
  "failing_model x = Throws"

section \<open>Randomness and the store\<close>

lemma plantStates_Math_random: "plantStates (snd (Math_random w)) = plantStates w"
  by (simp add: Math_random_def)

lemma random_Math_random: "random (snd (Math_random w)) n = random w (Suc n)"
  by (simp add: Math_random_def)

lemma random_Math_random_add: "random (snd (Math_random w)) n = random w (n + 1)"
  by (simp add: Math_random_def)

lemma fst_Math_random: "fst (Math_random w) = random w 0"
  by (simp add: Math_random_def)

lemma rng_ok_Math_random: "rng_ok w \<Longrightarrow> rng_ok (snd (Math_random w))"
  by (simp add: rng_ok_def random_Math_random)

lemma plantStates_pattern_loop: "plantStates (snd (pattern_loop k i s w)) = plantStates w"
  by (induction k arbitrary: i w) (simp_all add: split_def Let_def plantStates_Math_random)

lemma random_pattern_loop: "random (snd (pattern_loop k i s w)) n = random w (n + k)"
  by (induction k arbitrary: i w n) (simp_all add: split_def Let_def random_Math_random)

lemma plantStates_generateAcousticPattern:
  "plantStates (snd (generateAcousticPattern s w)) = plantStates w"
  by (simp add: generateAcousticPattern_def plantStates_pattern_loop)

lemma random_generateAcousticPattern:
  "random (snd (generateAcousticPattern s w)) n = random w (n + 20)"
  by (simp add: generateAcousticPattern_def random_pattern_loop)

lemma rng_ok_generateAcousticPattern:
  "rng_ok w \<Longrightarrow> rng_ok (snd (generateAcousticPattern s w))"
  by (simp add: rng_ok_def random_generateAcousticPattern)


lemma plantStates_initializeSensorState:
  "plantStates (initializeSensorState pid T now w) q =
     (if q = pid then Some
        \<lparr>plantId = pid,
         temperature = T + (random w 0 - 0.5) * 4,
         humidity = 60 + (random w 1 - 0.5) * 20,
         soilMoisture = 60 + (random w 2 - 0.5) * 30,
         lightIntensity = 500 + (random w 3 - 0.5) * 200,
         lastWatered = TimeClip (of_int now - random w 4 * 7 * 24 * 60 * 60 * 1000),
         stressLevel = random w 5 * 0.3\<rparr>
      else plantStates w q)"
  by (simp add: initializeSensorState_def split_def Let_def numeral_eq_Suc
      plantStates_Math_random random_Math_random fst_Math_random)

lemma random_initializeSensorState:
  "random (initializeSensorState pid T now w) n = random w (n + 6)"
  by (simp add: initializeSensorState_def split_def Let_def numeral_eq_Suc random_Math_random)

lemma rng_ok_initializeSensorState:
  "rng_ok w \<Longrightarrow> rng_ok (initializeSensorState pid T now w)"
  by (simp add: rng_ok_def random_initializeSensorState)






lemma getOrInit_rng: "rng_ok w \<Longrightarrow> rng_ok (getOrInit pid now w)"
  by (simp add: getOrInit_def rng_ok_initializeSensorState)

section \<open>One step of the simulator\<close>

lemma updated_fields:
  "temperature (st\<lparr>temperature := t, humidity := h, soilMoisture := m,
      lightIntensity := l, stressLevel := s\<rparr>) = t"
  "humidity (st\<lparr>temperature := t, humidity := h, soilMoisture := m,
      lightIntensity := l, stressLevel := s\<rparr>) = h"
  "soilMoisture (st\<lparr>temperature := t, humidity := h, soilMoisture := m,
      lightIntensity := l, stressLevel := s\<rparr>) = m"
  "lightIntensity (st\<lparr>temperature := t, humidity := h, soilMoisture := m,
      lightIntensity := l, stressLevel := s\<rparr>) = l"
  "stressLevel (st\<lparr>temperature := t, humidity := h, soilMoisture := m,
      lightIntensity := l, stressLevel := s\<rparr>) = s"
  by simp_all

lemma plantStates_update: "plantStates (w\<lparr>plantStates := f\<rparr>) = f"
  by simp

lemma random_update: "random (w\<lparr>plantStates := f\<rparr>) = random w"
  by simp

lemma generateSensorReading_eq:
  "generateSensorReading pid now w =
     (let wi = getOrInit pid now w;
          state' = next_state (random wi 0) (random wi 1) (random wi 2) (random wi 3) now
                     (the (plantStates wi pid));
          w4 = snd (Math_random (snd (Math_random (snd (Math_random (snd (Math_random wi)))))));
          ap = generateAcousticPattern (stressLevel state') w4
      in (\<lparr>SensorReading.plantId = pid,
           SensorReading.temperature = Math_round (temperature state' * 10) / 10,
           SensorReading.humidity = Math_round (humidity state' * 10) / 10,
           SensorReading.soilMoisture = Math_round (soilMoisture state' * 10) / 10,
           SensorReading.lightIntensity = Math_round (lightIntensity state'),
           SensorReading.timestamp = now,
           SensorReading.acousticData = fst ap\<rparr>,
          (snd ap)\<lparr>plantStates := (plantStates (snd ap))(pid \<mapsto> state')\<rparr>))"
  unfolding generateSensorReading_def getOrInit_def next_state_def Let_def split_def
  by (simp only: fst_conv snd_conv fst_Math_random random_Math_random One_nat_def numeral_2_eq_2
        numeral_3_eq_3 updated_fields)

lemma plantStates_generateSensorReading:
  "plantStates (snd (generateSensorReading pid now w)) =
     (let wi = getOrInit pid now w
      in (plantStates wi)(pid \<mapsto>
            next_state (random wi 0) (random wi 1) (random wi 2) (random wi 3) now
              (the (plantStates wi pid))))"
  by (simp only: generateSensorReading_eq Let_def snd_conv plantStates_update
        plantStates_generateAcousticPattern plantStates_Math_random)

lemma random_generateSensorReading:
  "random (snd (generateSensorReading pid now w)) n =
     random w (n + (if plantStates w pid = None then 30 else 24))"
proof -
  have "random (snd (generateSensorReading pid now w)) n = random (getOrInit pid now w) (n + 24)"
    by (simp only: generateSensorReading_eq Let_def snd_conv random_update
          random_generateAcousticPattern random_Math_random_add) (simp add: add.commute)
  also have "\<dots> = random w (n + (if plantStates w pid = None then 30 else 24))"
    by (simp add: getOrInit_def random_initializeSensorState add.commute)
  finally show ?thesis .
qed











lemma random_waterPlant: "random (waterPlant pid now w) = random w"
  by (simp add: waterPlant_def split: option.splits)

lemma plantStates_waterPlant:
  "plantStates (waterPlant pid now w) =
     (case plantStates w pid of
        None \<Rightarrow> plantStates w
      | Some st \<Rightarrow> (plantStates w)(pid \<mapsto>
            st\<lparr>soilMoisture := min 90 (soilMoisture st + 40), lastWatered := now\<rparr>))"
  by (simp add: waterPlant_def split: option.splits)

lemma random_empty_world: "random (empty_world rnd) = rnd"
  by (simp add: empty_world_def)

lemma plantStates_empty_world: "plantStates (empty_world rnd) pid = None"
  by (simp add: empty_world_def)



lemma moist_world_state:
  "\<exists>st. plantStates moist_world 1 = Some st \<and> soilMoisture st = 2188799 / 24000"
proof -
  let ?w0 = "empty_world (constant_rng (9 / 10))"
  let ?w1 = "snd (generateSensorReading 1 1000000000 ?w0)"
  let ?w2 = "waterPlant 1 1000000000 ?w1"
  have s1: "plantStates ?w1 1 = Some
     \<lparr>plantId = 1, temperature = 119 / 5, humidity = 344 / 5, soilMoisture = 1263 / 25,
      lightIntensity = 600, lastWatered = 455680000, stressLevel = 1243 / 5625\<rparr>"
    by (simp add: plantStates_generateSensorReading Let_def getOrInit_def
        plantStates_empty_world random_empty_world constant_rng_def
        plantStates_initializeSensorState random_initializeSensorState
        next_state_def TimeClip_def)
  have r1: "random ?w1 n = 9 / 10" for n
    by (simp add: random_generateSensorReading random_empty_world constant_rng_def)
  have s2: "plantStates ?w2 1 = Some
     \<lparr>plantId = 1, temperature = 119 / 5, humidity = 344 / 5, soilMoisture = 90,
      lightIntensity = 600, lastWatered = 1000000000, stressLevel = 1243 / 5625\<rparr>"
    by (simp add: plantStates_waterPlant s1)
  have r2: "random ?w2 n = 9 / 10" for n
    by (simp add: random_waterPlant r1)
  show ?thesis
    unfolding moist_world_def
    by (simp add: plantStates_generateSensorReading Let_def getOrInit_def s2 r2 next_state_def)
qed


section \<open>Watering\<close>

text \<open>
  C2, as the code has it. \<open>waterPlant\<close> on a plant with a state sets the soil moisture
  to \<open>min(90, soilMoisture + 40)\<close> and \<open>lastWatered\<close> to the clock value; the new moisture
  is at most 90. It is at least the previous value exactly when the previous value was at
  most 90: the random walk of \<open>generateSensorReading\<close> is clamped at 100, not at 90, so a
  state above 90 can be reached, and watering lowers it to 90.
\<close>

theorem waterPlant_moisture:
  assumes "plantStates w pid = Some st"
  shows "\<exists>st'. plantStates (waterPlant pid now w) pid = Some st' \<and>
           soilMoisture st' = min 90 (soilMoisture st + 40) \<and>
           lastWatered st' = now \<and>
           soilMoisture st' \<le> 90 \<and>
           (soilMoisture st \<le> soilMoisture st') = (soilMoisture st \<le> 90)"
  using assms by (auto simp: waterPlant_def)

theorem waterPlant_moisture_witness:
  "plantStates precise_world 1 = Some precise_state \<and>
   (\<exists>st'. plantStates (waterPlant 1 5 precise_world) 1 = Some st' \<and>
      soilMoisture st' = min 90 (soilMoisture precise_state + 40) \<and>
      lastWatered st' = 5 \<and>
      soilMoisture st' \<le> 90 \<and>
      (soilMoisture precise_state \<le> soilMoisture st') = (soilMoisture precise_state \<le> 90))"
proof -
  have h: "plantStates precise_world 1 = Some precise_state"
    by (simp add: precise_world_def)
  show ?thesis
    using h waterPlant_moisture [OF h, of 5] by blast
qed

text \<open>
  C2 as stated fails on a reachable state: in \<open>moist_world\<close> plant 1 has a soil moisture
  of about 91.2, and watering it gives 90.
\<close>

theorem waterPlant_decreases_counterexample:
  "map_option soilMoisture (plantStates moist_world 1) = Some (2188799 / 24000) \<and>
   map_option soilMoisture (plantStates (waterPlant 1 1000002000 moist_world) 1) = Some 90 \<and>
   (90 :: real) < 2188799 / 24000"
proof -
  obtain st where st: "plantStates moist_world 1 = Some st" "soilMoisture st = 2188799 / 24000"
    using moist_world_state by blast
  then show ?thesis
    by (simp add: plantStates_waterPlant)
qed

text \<open>
  C10. Watering a plant that has no state changes nothing: the world is the same and
  \<open>getPlantState\<close> still finds no state. \<open>waterPlant\<close> never adds a key to the store;
  \<open>initializeSensorState\<close> and \<open>generateSensorReading\<close> add the key of their plant.
\<close>

theorem waterPlant_unknown_plant:
  "(plantStates w pid = None \<longrightarrow>
      waterPlant pid now w = w \<and> getPlantState pid (waterPlant pid now w) = None) \<and>
   dom (plantStates (waterPlant pid now w)) = dom (plantStates w) \<and>
   dom (plantStates (initializeSensorState pid T now w)) = insert pid (dom (plantStates w)) \<and>
   dom (plantStates (snd (generateSensorReading pid now w))) = insert pid (dom (plantStates w))"
proof -
  have a: "dom (plantStates (waterPlant pid now w)) = dom (plantStates w)"
    by (auto simp: plantStates_waterPlant split: option.splits)
  have b: "dom (plantStates (initializeSensorState pid T now w)) = insert pid (dom (plantStates w))"
    for T
    by (auto simp: dom_def plantStates_initializeSensorState)
  have "dom (plantStates (getOrInit pid now w)) = insert pid (dom (plantStates w))"
    using b [of 22] by (auto simp: getOrInit_def)
  then have c: "dom (plantStates (snd (generateSensorReading pid now w)))
      = insert pid (dom (plantStates w))"
    by (simp add: plantStates_generateSensorReading Let_def)
  show ?thesis
    using a b c by (simp add: waterPlant_def getPlantState_def)
qed

theorem waterPlant_unknown_plant_witness:
  "plantStates (empty_world (constant_rng 0)) 7 = None \<and>
   waterPlant 7 5 (empty_world (constant_rng 0)) = empty_world (constant_rng 0) \<and>
   getPlantState 7 (waterPlant 7 5 (empty_world (constant_rng 0))) = None"
  using waterPlant_unknown_plant [of "empty_world (constant_rng 0)" 7 5 22]
  by (simp add: plantStates_empty_world getPlantState_def)


section \<open>Hard ranges\<close>



section \<open>Display rounding\<close>

text \<open>
  C9. The reading that \<open>generateSensorReading\<close> returns carries the stored temperature,
  humidity and soil moisture rounded to one decimal place and the stored light intensity
  rounded to an integer. The stored state itself holds the clamped values computed from the
  previous state (the freshly initialised one when the plant had none) and the draws, with no
  rounding applied; the next call starts from these.
\<close>

theorem reading_is_rounded_state_is_not:
  "let wi = (if plantStates w pid = None then initializeSensorState pid 22 now w else w);
       st0 = the (plantStates wi pid);
       reading = fst (generateSensorReading pid now w);
       st = the (plantStates (snd (generateSensorReading pid now w)) pid)
   in plantStates (snd (generateSensorReading pid now w)) pid = Some st \<and>
      SensorReading.temperature reading = Math_round (temperature st * 10) / 10 \<and>
      SensorReading.humidity reading = Math_round (humidity st * 10) / 10 \<and>
      SensorReading.soilMoisture reading = Math_round (soilMoisture st * 10) / 10 \<and>
      SensorReading.lightIntensity reading = Math_round (lightIntensity st) \<and>
      temperature st = max 15 (min 35 (temperature st0 + (random wi 0 - 0.5) * 0.5)) \<and>
      humidity st = max 20 (min 95 (humidity st0 + (random wi 1 - 0.5) * 2)) \<and>
      soilMoisture st =
        max 10 (max 10 (min 100 (soilMoisture st0 + (random wi 2 - 0.5) * 3))
                - (of_int now - of_int (lastWatered st0)) / (1000 * 60 * 60) * 0.15) \<and>
      lightIntensity st = max 0 (min 1000 (lightIntensity st0 + (random wi 3 - 0.5) * 50))"
proof -
  define wi where "wi = getOrInit pid now w"
  define st0 where "st0 = the (plantStates wi pid)"
  define st where "st = next_state (random wi 0) (random wi 1) (random wi 2) (random wi 3) now st0"
  have present: "plantStates (snd (generateSensorReading pid now w)) pid = Some st"
    by (simp add: plantStates_generateSensorReading Let_def wi_def st0_def st_def)
  then have stored: "the (plantStates (snd (generateSensorReading pid now w)) pid) = st"
    by simp
  have shown:
    "SensorReading.temperature (fst (generateSensorReading pid now w))
       = Math_round (temperature st * 10) / 10"
    "SensorReading.humidity (fst (generateSensorReading pid now w))
       = Math_round (humidity st * 10) / 10"
    "SensorReading.soilMoisture (fst (generateSensorReading pid now w))
       = Math_round (soilMoisture st * 10) / 10"
    "SensorReading.lightIntensity (fst (generateSensorReading pid now w))
       = Math_round (lightIntensity st)"
    by (simp_all only: generateSensorReading_eq Let_def fst_conv SensorReading.select_convs
          wi_def st0_def st_def)
  have kept:
    "temperature st = max 15 (min 35 (temperature st0 + (random wi 0 - 0.5) * 0.5))"
    "humidity st = max 20 (min 95 (humidity st0 + (random wi 1 - 0.5) * 2))"
    "soilMoisture st =
       max 10 (max 10 (min 100 (soilMoisture st0 + (random wi 2 - 0.5) * 3))
               - (of_int now - of_int (lastWatered st0)) / (1000 * 60 * 60) * 0.15)"
    "lightIntensity st = max 0 (min 1000 (lightIntensity st0 + (random wi 3 - 0.5) * 50))"
    by (simp_all only: st_def next_state_def Let_def updated_fields)
  show ?thesis
    unfolding Let_def getOrInit_def [symmetric] wi_def [symmetric] st0_def [symmetric] stored
    using present shown kept by (simp only: simp_thms)
qed

theorem reading_is_rounded_state_is_not_witness:
  "SensorReading.temperature (fst (generateSensorReading 1 0 precise_world)) = 201 / 10 \<and>
   temperature (the (plantStates (snd (generateSensorReading 1 0 precise_world)) 1))
     = 20123 / 1000"
proof -
  let ?g = "generateSensorReading 1 0 precise_world"
  have known: "(if plantStates precise_world 1 = None
                then initializeSensorState 1 22 0 precise_world else precise_world)
               = precise_world"
    by (simp add: precise_world_def)
  note t = reading_is_rounded_state_is_not [of precise_world 1 0, unfolded Let_def known]
  have shown: "SensorReading.temperature (fst ?g)
      = Math_round (temperature (the (plantStates (snd ?g) 1)) * 10) / 10"
    by (rule conjunct1 [OF conjunct2 [OF t]])
  have "temperature (the (plantStates (snd ?g) 1))
      = max 15 (min 35 (temperature (the (plantStates precise_world 1))
          + (random precise_world 0 - 0.5) * 0.5))"
    using t by blast
  then have stored: "temperature (the (plantStates (snd ?g) 1)) = 20123 / 1000"
    by (simp add: precise_world_def precise_state_def constant_rng_def)
  show ?thesis
    unfolding shown stored by (simp add: Math_round_def)
qed

section \<open>Health prediction\<close>

lemma predictPlantHealth_eq:
  "predictPlantHealth m input =
     \<lparr>predictedHealth = max 0 (min 100 (fst (health_estimate m input))),
      PredictionResult.confidence = Math_round (snd (health_estimate m input) * 100) / 100,
      trend = (if fst (health_estimate m input) > healthScore input + 5 then improving
               else if fst (health_estimate m input) < healthScore input - 5 then declining
               else stable)\<rparr>"
  by (simp add: predictPlantHealth_def predictPlantHealth_try_def split_def Let_def)

lemma health_estimate_fallback:
  "health_estimate None input =
     (Math_round (healthScore input * 0.5
        + (100 - \<bar>PlantHealthInput.temperature input - 23\<bar> * 5) * 0.25
        + (100 - \<bar>PlantHealthInput.humidity input - 60\<bar> * 1.5) * 0.25), 0.65)"
  by (simp add: health_estimate_def Let_def)

lemma health_estimate_failing_model:
  "health_estimate (Some failing_model) input = (healthScore input, 0.7)"
  by (simp add: health_estimate_def failing_model_def)


lemma round_half_plus_fifty:
  assumes "0 \<le> score" "score \<le> 100"
  shows "50 \<le> Math_round (score / 2 + 50)" and "Math_round (score / 2 + 50) \<le> 100"
    and "score \<le> Math_round (score / 2 + 50)"
    and "Math_round (score / 2 + 50) = score \<longleftrightarrow> score = 100"
proof -
  let ?n = "\<lfloor>score / 2 + 50 + 1 / 2\<rfloor>"
  show "50 \<le> Math_round (score / 2 + 50)" and "Math_round (score / 2 + 50) \<le> 100"
    using assms unfolding Math_round_def by (simp_all add: le_floor_iff floor_le_iff)
  show "score \<le> Math_round (score / 2 + 50)"
  proof (cases "score \<le> 99")
    case True
    have "score / 2 + 50 + 1 / 2 - 1 < of_int ?n"
      by linarith
    with True show ?thesis
      unfolding Math_round_def by linarith
  next
    case False
    then have "(100::real) \<le> score / 2 + 50 + 1 / 2"
      by simp
    then have "100 \<le> ?n"
      by (simp add: le_floor_iff)
    then have "(100::real) \<le> of_int ?n"
      by linarith
    with assms show ?thesis
      unfolding Math_round_def by linarith
  qed
  show "Math_round (score / 2 + 50) = score \<longleftrightarrow> score = 100"
  proof
    assume a: "Math_round (score / 2 + 50) = score"
    define n where "n = \<lfloor>score / 2 + 50 + 1 / 2\<rfloor>"
    have n: "score = of_int n"
      using a by (simp add: Math_round_def n_def)
    have "score / 2 + 50 + 1 / 2 < of_int n + 1"
      unfolding n_def by linarith
    then have "(99::real) < of_int n"
      using n by simp
    then have "99 < n"
      by linarith
    moreover have "n \<le> 100"
      using assms(2) n by simp
    ultimately have "n = 100"
      by simp
    then show "score = 100"
      using n by simp
  next
    assume "score = 100"
    then show "Math_round (score / 2 + 50) = score"
      by (simp add: Math_round_def)
  qed
qed

text \<open>
  C1, as the code has it. With no model loaded, a score in [0,100] and the ideal
  temperature 23 and humidity 60, both sub-scores are 100 and the fallback formula gives
  \<open>round(0.5 * score + 50)\<close>, not the score: the returned \<open>predictedHealth\<close> is that value
  (it lies in [50,100], so the clamp does not change it), with confidence 0.65. It equals
  the score only for the score 100, where the trend is \<open>stable\<close>; the trend is never
  \<open>declining\<close>.
\<close>

theorem ideal_conditions_prediction:
  assumes "0 \<le> score" and "score \<le> 100"
  shows "let r = predictPlantHealth None
                   \<lparr>healthScore = score, PlantHealthInput.temperature = 23,
                    PlantHealthInput.humidity = 60\<rparr>
         in predictedHealth r = Math_round (score / 2 + 50) \<and>
            PredictionResult.confidence r = 0.65 \<and>
            (predictedHealth r = score \<longleftrightarrow> score = 100) \<and>
            (score = 100 \<longrightarrow> trend r = stable) \<and>
            trend r \<noteq> declining"
proof -
  define p where "p = Math_round (score / 2 + 50)"
  have est: "health_estimate None \<lparr>healthScore = score, PlantHealthInput.temperature = 23,
                    PlantHealthInput.humidity = 60\<rparr> = (p, 0.65)"
    by (simp add: health_estimate_fallback p_def add.commute)
  have lo: "50 \<le> p" and hi: "p \<le> 100" and ge: "score \<le> p"
    and eq: "p = score \<longleftrightarrow> score = 100"
    unfolding p_def using round_half_plus_fifty [OF assms] by blast+
  have c: "Math_round (65 / 100 * 100) / 100 = (65 / 100 :: real)"
    by (simp add: Math_round_def)
  show ?thesis
    unfolding Let_def predictPlantHealth_eq est
    using lo hi ge eq c by (auto simp: p_def [symmetric])
qed

theorem ideal_conditions_prediction_witness:
  "(0::real) \<le> 100 \<and> (100::real) \<le> 100 \<and>
   predictedHealth (predictPlantHealth None
      \<lparr>healthScore = 100, PlantHealthInput.temperature = 23, PlantHealthInput.humidity = 60\<rparr>)
     = 100 \<and>
   trend (predictPlantHealth None
      \<lparr>healthScore = 100, PlantHealthInput.temperature = 23, PlantHealthInput.humidity = 60\<rparr>)
     = stable"
  using ideal_conditions_prediction [of 100]
  by (simp add: Let_def)

text \<open>
  C1 as stated fails: for the score 0 under ideal conditions the prediction is 50.
\<close>

theorem ideal_conditions_prediction_counterexample:
  "predictedHealth (predictPlantHealth None
      \<lparr>healthScore = 0, PlantHealthInput.temperature = 23, PlantHealthInput.humidity = 60\<rparr>)
     = 50 \<and>
   predictedHealth (predictPlantHealth None
      \<lparr>healthScore = 0, PlantHealthInput.temperature = 23, PlantHealthInput.humidity = 60\<rparr>)
     \<noteq> healthScore \<lparr>healthScore = 0, PlantHealthInput.temperature = 23,
          PlantHealthInput.humidity = 60\<rparr>"
  by (simp add: predictPlantHealth_eq health_estimate_fallback Math_round_def)

text \<open>
  C3. With a loaded model whose inference raises, \<open>predictPlantHealth\<close> raises nothing,
  but it does not compute the heuristic either: for the score 50 at 23 degrees and 60
  percent humidity it returns the current score 50 with confidence 0.7 and trend
  \<open>stable\<close>, where the heuristic path (no model) returns 75, 0.65 and \<open>improving\<close>.
\<close>

theorem failed_inference_skips_heuristic:
  "predictPlantHealth (Some failing_model)
      \<lparr>healthScore = 50, PlantHealthInput.temperature = 23, PlantHealthInput.humidity = 60\<rparr>
     = \<lparr>predictedHealth = 50, PredictionResult.confidence = 7 / 10, trend = stable\<rparr> \<and>
   predictPlantHealth None
      \<lparr>healthScore = 50, PlantHealthInput.temperature = 23, PlantHealthInput.humidity = 60\<rparr>
     = \<lparr>predictedHealth = 75, PredictionResult.confidence = 65 / 100, trend = improving\<rparr>"
  by (simp add: predictPlantHealth_eq health_estimate_fallback health_estimate_failing_model
      Math_round_def)

text \<open>
  C5, as the code has it. The returned \<open>predictedHealth\<close> is the estimate clamped to
  [0,100], but the trend is determined before the clamp, from the unclamped estimate \<open>p\<close>:
  \<open>improving\<close> if and only if \<open>p > currentScore + 5\<close>, \<open>declining\<close> if and only if
  \<open>p < currentScore - 5\<close>, \<open>stable\<close> otherwise. For a current score strictly between 5
  and 95 the same classification results from the returned, clamped value.
\<close>

theorem trend_uses_unclamped_estimate:
  "let p = fst (health_estimate m input); r = predictPlantHealth m input
   in predictedHealth r = max 0 (min 100 p) \<and>
      (trend r = improving \<longleftrightarrow> p > healthScore input + 5) \<and>
      (trend r = declining \<longleftrightarrow> p < healthScore input - 5) \<and>
      (trend r = stable \<longleftrightarrow> healthScore input - 5 \<le> p \<and> p \<le> healthScore input + 5) \<and>
      (5 < healthScore input \<and> healthScore input < 95 \<longrightarrow>
         (trend r = improving \<longleftrightarrow> predictedHealth r > healthScore input + 5) \<and>
         (trend r = declining \<longleftrightarrow> predictedHealth r < healthScore input - 5))"
  unfolding Let_def predictPlantHealth_eq by auto

theorem trend_uses_unclamped_estimate_witness:
  "(5::real) < 50 \<and> (50::real) < 95 \<and>
   trend (predictPlantHealth None
      \<lparr>healthScore = 50, PlantHealthInput.temperature = 23, PlantHealthInput.humidity = 60\<rparr>)
     = improving \<and>
   predictedHealth (predictPlantHealth None
      \<lparr>healthScore = 50, PlantHealthInput.temperature = 23, PlantHealthInput.humidity = 60\<rparr>)
     > 50 + 5"
  using trend_uses_unclamped_estimate [of None
      "\<lparr>healthScore = 50, PlantHealthInput.temperature = 23, PlantHealthInput.humidity = 60\<rparr>"]
  by (simp add: Let_def health_estimate_fallback Math_round_def)

text \<open>
  C5 as stated fails: for the score 0 at temperature 1000 the estimate is far below
  \<open>- 5\<close>, so the trend is \<open>declining\<close>, while the returned value 0 is not below
  \<open>0 - 5\<close>.
\<close>

theorem trend_of_clamped_value_counterexample:
  "trend (predictPlantHealth None
      \<lparr>healthScore = 0, PlantHealthInput.temperature = 1000, PlantHealthInput.humidity = 60\<rparr>)
     = declining \<and>
   \<not> predictedHealth (predictPlantHealth None
      \<lparr>healthScore = 0, PlantHealthInput.temperature = 1000, PlantHealthInput.humidity = 60\<rparr>)
     < healthScore \<lparr>healthScore = 0, PlantHealthInput.temperature = 1000,
         PlantHealthInput.humidity = 60\<rparr> - 5"
  by (simp add: predictPlantHealth_eq health_estimate_fallback Math_round_def)




section \<open>Acoustic analysis\<close>

lemma foldl_add_nonneg:
  fixes a :: real
  shows "0 \<le> a \<Longrightarrow> \<forall>x\<in>set xs. 0 \<le> x \<Longrightarrow> 0 \<le> foldl (+) a xs"
  by (induction xs arbitrary: a) simp_all

lemma foldl_squares_nonneg:
  fixes a :: real
  shows "0 \<le> a \<Longrightarrow> 0 \<le> foldl (\<lambda>sum val. sum + (val - m) ^ 2) a xs"
  by (induction xs arbitrary: a) simp_all

lemma Math_round_unit:
  assumes "0 \<le> s" "s \<le> 1"
  shows "0 \<le> Math_round (s * 1000) / 1000" and "Math_round (s * 1000) / 1000 \<le> 1"
proof -
  have "0 \<le> \<lfloor>s * 1000 + 1 / 2\<rfloor>"
    using assms(1) by (simp add: le_floor_iff)
  then show "0 \<le> Math_round (s * 1000) / 1000"
    by (simp add: Math_round_def)
  have "\<lfloor>s * 1000 + 1 / 2\<rfloor> \<le> 1000"
    using assms(2) by (simp add: floor_le_iff)
  then have "real_of_int \<lfloor>s * 1000 + 1 / 2\<rfloor> \<le> 1000"
    by linarith
  then show "Math_round (s * 1000) / 1000 \<le> 1"
    by (simp add: Math_round_def)
qed

text \<open>
  Where the stress level does stay in [0,1]: on the model path always, and on the fallback
  path for a vector without negative entries and a health score in [0,100].
\<close>

lemma model_stress_in_range:
  "fs \<noteq> [] \<Longrightarrow>
   0 \<le> AcousticResult.stressLevel (analyzeAcousticPattern (Some model) (Some fs) h) \<and>
   AcousticResult.stressLevel (analyzeAcousticPattern (Some model) (Some fs) h) \<le> 1"
  by (cases "model fs")
     (simp_all add: analyzeAcousticPattern_def analyzeAcousticPattern_try_def stress_estimate_def
        Math_round_unit Math_round_def)

lemma fallback_stress_in_range:
  assumes "fs \<noteq> []" and "\<forall>x\<in>set fs. 0 \<le> x" and "0 \<le> h" and "h \<le> 100"
  shows "0 \<le> AcousticResult.stressLevel (analyzeAcousticPattern None (Some fs) h) \<and>
         AcousticResult.stressLevel (analyzeAcousticPattern None (Some fs) h) \<le> 1"
proof -
  define mean where "mean = foldl (+) (hd fs) (tl fs) / of_nat (length fs)"
  define variance where
    "variance = foldl (\<lambda>sum val. sum + (val - mean) ^ 2) 0 fs / of_nat (length fs)"
  define s0 where "s0 = min 1 (sqrt variance / (mean + 0.001))"
  define s where "s = s0 * 0.7 + (1 - h / 100) * 0.3"
  have "0 \<le> hd fs" and "\<forall>x\<in>set (tl fs). 0 \<le> x"
    using assms(1,2) by (cases fs; simp)+
  then have "0 \<le> foldl (+) (hd fs) (tl fs)"
    by (rule foldl_add_nonneg)
  then have mean: "0 \<le> mean"
    by (simp add: mean_def)
  have "0 \<le> variance"
    by (simp add: variance_def foldl_squares_nonneg)
  then have "0 \<le> sqrt variance / (mean + 0.001)"
    using mean by simp
  then have s0: "0 \<le> s0" "s0 \<le> 1"
    by (simp_all add: s0_def)
  define hf where "hf = 1 - h / 100"
  have hf: "0 \<le> hf" "hf \<le> 1"
    using assms(3,4) by (simp_all add: hf_def)
  have s_eq: "s = s0 * (7 / 10) + hf * (3 / 10)"
    by (simp add: s_def hf_def)
  have "0 \<le> s"
    using s0 hf unfolding s_eq by linarith
  moreover have "s \<le> 1"
    using s0 hf unfolding s_eq by linarith
  ultimately have s: "0 \<le> s" "s \<le> 1"
    by blast+
  have "AcousticResult.stressLevel (analyzeAcousticPattern None (Some fs) h)
      = Math_round (s * 1000) / 1000"
    using assms(1)
    by (simp add: analyzeAcousticPattern_def analyzeAcousticPattern_try_def stress_estimate_def
        Let_def split_def s_def s0_def variance_def mean_def)
  then show ?thesis
    using Math_round_unit [OF s] by simp
qed

text \<open>
  C7. Without a model, the vector \<open>[-1, -3]\<close> and the health score 100 give a stress
  level of \<open>-0.35\<close>: the mean is negative, so the coefficient of variation is negative, and
  the fallback path has no lower clamp (the model path has \<open>Math.max(0, ...)\<close>).
\<close>

theorem fallback_stress_below_zero:
  "AcousticResult.stressLevel (analyzeAcousticPattern None (Some [- 1, - 3]) 100) = - 7 / 20"
  by (simp add: analyzeAcousticPattern_def analyzeAcousticPattern_try_def stress_estimate_def
      Let_def Math_round_def power2_eq_square)

section \<open>Ingestion\<close>

text \<open>
  The answers of \<open>POST\<close> to a body that is not \<open>null\<close>: 400 when the plant id is absent
  or falsy or one of the two measurements is absent, and otherwise 201 with the reading.
\<close>

lemma post_status:
  assumes "b \<noteq> JNull"
  shows "status (fst (POST (Some b) now sensorReadings)) =
           (if property b ''plantId'' = None \<or> \<not> truthy (the (property b ''plantId''))
               \<or> property b ''temperature'' = None \<or> property b ''humidity'' = None
            then 400 else 201)"
  using assms by (cases b) (auto simp: POST_def Let_def split: option.splits)

text \<open>
  C8. A body with all three required fields present, but with the plant id 0, is answered
  with status 400 and the message that fields are missing, and nothing is stored:
  \<open>!plantId\<close> is true for the number 0.
\<close>

theorem post_rejects_plant_zero:
  "POST (Some (JObj [(''plantId'', JNum 0), (''temperature'', JNum 20), (''humidity'', JNum 50)]))
        now sensorReadings
     = (\<lparr>status = 400,
         body = ErrorBody ''Missing required fields: plantId, temperature, humidity''\<rparr>,
        sensorReadings)"
  by (simp add: POST_def)


end
